theory Spec2Isabelle
  imports Main
begin

section \<open>History engine (useHistory)\<close>

text \<open>
  The hook \<^verbatim>\<open>useHistory<T>\<close> keeps a record of three fields. It is generic in the
  snapshot type, and so is the model.
\<close>

record 'a HistoryState =
  past :: "'a list"
  present :: 'a
  future :: "'a list"

definition useHistory :: "'a \<Rightarrow> 'a HistoryState" where
  "useHistory initialPresent = \<lparr>past = [], present = initialPresent, future = []\<rparr>"

definition canUndo :: "'a HistoryState \<Rightarrow> bool" where
  "canUndo state = (length (past state) > 0)"

definition canRedo :: "'a HistoryState \<Rightarrow> bool" where
  "canRedo state = (length (future state) > 0)"

text \<open>
  \<^verbatim>\<open>undo\<close> reads \<^verbatim>\<open>state.past[state.past.length - 1]\<close> and
  \<^verbatim>\<open>state.past.slice(0, state.past.length - 1)\<close>; both are guarded by
  \<^verbatim>\<open>canUndo\<close>, so the index is in range. \<^verbatim>\<open>redo\<close> reads
  \<^verbatim>\<open>state.future[0]\<close> and \<^verbatim>\<open>state.future.slice(1)\<close> under \<^verbatim>\<open>canRedo\<close>.
  Each call is applied to the state the previous call produced (the component is rendered
  again between two clicks).
\<close>

definition undo :: "'a HistoryState \<Rightarrow> 'a HistoryState" where
  "undo state =
     (if canUndo state then
        (let previous = past state ! (length (past state) - 1);
             newPast = take (length (past state) - 1) (past state)
         in \<lparr>past = newPast, present = previous, future = present state # future state\<rparr>)
      else state)"

definition redo :: "'a HistoryState \<Rightarrow> 'a HistoryState" where
  "redo state =
     (if canRedo state then
        (let next = future state ! 0;
             newFuture = drop 1 (future state)
         in \<lparr>past = past state @ [present state], present = next, future = newFuture\<rparr>)
      else state)"

text \<open>
  \<^verbatim>\<open>set\<close> compares \<^verbatim>\<open>JSON.stringify(prevState.present)\<close> with
  \<^verbatim>\<open>JSON.stringify(newPresent)\<close> by \<^verbatim>\<open>===\<close>. The serialiser is a built-in of the language,
  not code of the repository, and is a parameter here; its result is a string or
  \<^verbatim>\<open>undefined\<close>, so the type of the result is left open.
\<close>

definition same_serialisation :: "('a \<Rightarrow> 'b) \<Rightarrow> 'a \<Rightarrow> 'a \<Rightarrow> bool" where
  "same_serialisation stringify a b = (stringify a = stringify b)"

definition set_hist :: "('a \<Rightarrow> 'b) \<Rightarrow> 'a \<Rightarrow> 'a HistoryState \<Rightarrow> 'a HistoryState" where
  "set_hist stringify newPresent prevState =
     (if same_serialisation stringify (present prevState) newPresent then prevState
      else \<lparr>past = past prevState @ [present prevState], present = newPresent, future = []\<rparr>)"

definition reset :: "'a \<Rightarrow> 'a HistoryState \<Rightarrow> 'a HistoryState" where
  "reset newPresent state = \<lparr>past = [], present = newPresent, future = []\<rparr>"

text \<open>A run of \<^verbatim>\<open>set\<close> calls, oldest first, from the initial state of the hook.\<close>

definition after_sets :: "('a \<Rightarrow> 'b) \<Rightarrow> 'a \<Rightarrow> 'a list \<Rightarrow> 'a HistoryState" where
  "after_sets stringify initialPresent xs =
     foldl (\<lambda>state x. set_hist stringify x state) (useHistory initialPresent) xs"

text \<open>
  A one-field document \<^verbatim>\<open>{title: ...}\<close> and its serialisation, for the examples of the
  specification (titles without characters that JSON escapes).
\<close>

record titled =
  title_of :: string

definition stringify_titled :: "titled \<Rightarrow> string" where
  "stringify_titled d = ''{\"title\":\"'' @ title_of d @ ''\"}''"

section \<open>Values and their JSON text\<close>

text \<open>
  The values a snapshot is made of: \<^verbatim>\<open>undefined\<close>, \<^verbatim>\<open>null\<close>, booleans, strings, arrays,
  and objects as the list of their properties in the order the object holds them (an
  object has each key once). Numbers do not occur in a presentation and are left out.
\<close>

datatype json =
    JUndefined
  | JNull
  | JBool bool
  | JString string
  | JArray "json list"
  | JObject "(string \<times> json) list"

text \<open>
  \<^verbatim>\<open>JSON.stringify(value)\<close> with one argument, as the language defines it. A string is
  put in double quotes, with the quote, the backslash and the control characters escaped.
  An array element that has no JSON text is written \<^verbatim>\<open>null\<close>. A property whose value
  has no JSON text is left out; the other properties are written in the order of the
  object. The value \<^verbatim>\<open>undefined\<close> has no JSON text: the result is \<^verbatim>\<open>undefined\<close>
  (\<open>None\<close>).
\<close>

definition hex_digit :: "nat \<Rightarrow> char" where
  "hex_digit n = ''0123456789abcdef'' ! n"

definition escape_unit :: "char \<Rightarrow> string" where
  "escape_unit c =
     (if c = CHR 0x22 then [CHR 0x5C, CHR 0x22]
      else if c = CHR 0x5C then [CHR 0x5C, CHR 0x5C]
      else if c = CHR 0x08 then [CHR 0x5C, CHR ''b'']
      else if c = CHR 0x09 then [CHR 0x5C, CHR ''t'']
      else if c = CHR 0x0A then [CHR 0x5C, CHR ''n'']
      else if c = CHR 0x0C then [CHR 0x5C, CHR ''f'']
      else if c = CHR 0x0D then [CHR 0x5C, CHR ''r'']
      else if (of_char c :: nat) < 0x20
      then [CHR 0x5C, CHR ''u'', CHR ''0'', CHR ''0'',
            hex_digit (of_char c div 16), hex_digit (of_char c mod 16)]
      else [c])"

definition QuoteJSONString :: "string \<Rightarrow> string" where
  "QuoteJSONString s = CHR 0x22 # concat (map escape_unit s) @ [CHR 0x22]"

fun join_comma :: "string list \<Rightarrow> string" where
  "join_comma [] = []"
| "join_comma [s] = s"
| "join_comma (s # ss) = s @ CHR '','' # join_comma ss"

fun JSON_stringify :: "json \<Rightarrow> string option"
  and serialize_elements :: "json list \<Rightarrow> string list"
  and serialize_properties :: "(string \<times> json) list \<Rightarrow> string list" where
  "JSON_stringify JUndefined = None"
| "JSON_stringify JNull = Some ''null''"
| "JSON_stringify (JBool b) = Some (if b then ''true'' else ''false'')"
| "JSON_stringify (JString s) = Some (QuoteJSONString s)"
| "JSON_stringify (JArray xs) = Some (CHR ''['' # join_comma (serialize_elements xs) @ '']'')"
| "JSON_stringify (JObject ps) = Some (CHR ''{'' # join_comma (serialize_properties ps) @ ''}'')"
| "serialize_elements [] = []"
| "serialize_elements (x # xs) =
     (case JSON_stringify x of None \<Rightarrow> ''null'' | Some s \<Rightarrow> s) # serialize_elements xs"
| "serialize_properties [] = []"
| "serialize_properties (p # ps) =
     (case JSON_stringify (snd p) of
        None \<Rightarrow> serialize_properties ps
      | Some s \<Rightarrow> (QuoteJSONString (fst p) @ CHR '':'' # s) # serialize_properties ps)"

text \<open>
  Deep equality of two values, as the specification uses the word: the same kind of value;
  strings and booleans equal; arrays of the same length with deep-equal elements at each
  index; objects with the same keys and deep-equal values under each key, in whatever
  order the keys stand.
\<close>

fun deep_equal :: "json \<Rightarrow> json \<Rightarrow> bool"
  and deep_equal_elements :: "json list \<Rightarrow> json list \<Rightarrow> bool"
  and deep_equal_properties :: "(string \<times> json) list \<Rightarrow> (string \<times> json) list \<Rightarrow> bool" where
  "deep_equal (JArray xs) b = (case b of JArray ys \<Rightarrow> deep_equal_elements xs ys | _ \<Rightarrow> False)"
| "deep_equal (JObject ps) b =
     (case b of JObject qs \<Rightarrow> length ps = length qs \<and> deep_equal_properties ps qs
      | _ \<Rightarrow> False)"
| "deep_equal JUndefined b = (b = JUndefined)"
| "deep_equal JNull b = (b = JNull)"
| "deep_equal (JBool x) b = (b = JBool x)"
| "deep_equal (JString s) b = (b = JString s)"
| "deep_equal_elements [] ys = (ys = [])"
| "deep_equal_elements (x # xs) ys =
     (case ys of [] \<Rightarrow> False | y # ys' \<Rightarrow> deep_equal x y \<and> deep_equal_elements xs ys')"
| "deep_equal_properties [] qs = True"
| "deep_equal_properties (p # ps) qs =
     ((case map_of qs (fst p) of None \<Rightarrow> False | Some w \<Rightarrow> deep_equal (snd p) w)
      \<and> deep_equal_properties ps qs)"

section \<open>Strings\<close>

text \<open>
  A string is a sequence of code units; the model covers the code units below 256, which
  includes every character the source tests for. The functions follow the built-in
  methods the source calls on strings.
\<close>

definition startsWith :: "string \<Rightarrow> string \<Rightarrow> bool" where
  "startsWith s searchString = (take (length searchString) s = searchString)"

definition endsWith :: "string \<Rightarrow> string \<Rightarrow> bool" where
  "endsWith s searchString =
     (length searchString \<le> length s \<and> drop (length s - length searchString) s = searchString)"

text \<open>\<^verbatim>\<open>s.replace('#', '')\<close>: the first occurrence of the character is removed.\<close>

definition replace_hash :: "string \<Rightarrow> string" where
  "replace_hash s = remove1 (CHR ''#'') s"

definition isHexDigit :: "char \<Rightarrow> bool" where
  "isHexDigit c = (c \<in> set ''0123456789abcdefABCDEF'')"

text \<open>
  \<^verbatim>\<open>s.match(/#[0-9a-fA-F]{6}/)\<close>: the leftmost position where a hash sign is followed
  by six hexadecimal digits; the result is the matched text, or nothing.
\<close>

fun match_hex6 :: "string \<Rightarrow> string option" where
  "match_hex6 [] = None"
| "match_hex6 (c # cs) =
     (if c = CHR ''#'' \<and> 6 \<le> length cs \<and> list_all isHexDigit (take 6 cs)
      then Some (c # take 6 cs)
      else match_hex6 cs)"

text \<open>A six-digit colour literal begins at position \<open>i\<close> of \<open>s\<close>.\<close>

definition hex_literal_at :: "string \<Rightarrow> nat \<Rightarrow> bool" where
  "hex_literal_at s i =
     (i + 7 \<le> length s \<and> s ! i = CHR ''#'' \<and> list_all isHexDigit (take 6 (drop (Suc i) s)))"

section \<open>Background of a slide: preview and export\<close>

text \<open>
  The component \<^verbatim>\<open>SlideBackground\<close> computes two flags from the background string and
  chooses one of three elements.
\<close>

definition isColor :: "string \<Rightarrow> bool" where
  "isColor backgroundImage =
     (startsWith backgroundImage ''#'' \<or> startsWith backgroundImage ''linear-gradient'')"

definition isVideo :: "string \<Rightarrow> bool" where
  "isVideo backgroundImage =
     (startsWith backgroundImage ''data:video'' \<or> endsWith backgroundImage ''.mp4''
      \<or> endsWith backgroundImage ''.webm'')"

datatype bgElement = ColorDiv | VideoElement | ImgElement

definition SlideBackground :: "string \<Rightarrow> bgElement" where
  "SlideBackground backgroundImage =
     (if isColor backgroundImage then ColorDiv
      else if isVideo backgroundImage then VideoElement
      else ImgElement)"

text \<open>
  \<^verbatim>\<open>handleExport\<close> assigns \<^verbatim>\<open>pptSlide.background\<close> in one of three branches and leaves
  it unassigned otherwise (\<open>None\<close>).
\<close>

datatype background = Path string | Color string

definition export_background :: "string \<Rightarrow> background option" where
  "export_background backgroundImage =
     (if startsWith backgroundImage ''data:'' \<or> startsWith backgroundImage ''http''
      then Some (Path backgroundImage)
      else if startsWith backgroundImage ''#''
      then Some (Color (replace_hash backgroundImage))
      else if startsWith backgroundImage ''linear-gradient''
      then (case match_hex6 backgroundImage of
              Some m \<Rightarrow> Some (Color (replace_hash m))
            | None \<Rightarrow> Some (Color ''FFFFFF''))
      else None)"

text \<open>
  The four classes of the specification, and a fifth for a slide that the export gives no
  background. The class each consumer uses is read off the branch it takes; the preview
  draws one element for hexadecimal colours and gradients, and the two are told apart by
  which test of \<^verbatim>\<open>isColor\<close> holds.
\<close>

datatype bgClass = SolidColor | Gradient | Video | StaticImage | NoBackground

definition preview_class :: "string \<Rightarrow> bgClass" where
  "preview_class backgroundImage =
     (case SlideBackground backgroundImage of
        ColorDiv \<Rightarrow> (if startsWith backgroundImage ''#'' then SolidColor else Gradient)
      | VideoElement \<Rightarrow> Video
      | ImgElement \<Rightarrow> StaticImage)"

definition export_class :: "string \<Rightarrow> bgClass" where
  "export_class backgroundImage =
     (if startsWith backgroundImage ''data:'' \<or> startsWith backgroundImage ''http''
      then StaticImage
      else if startsWith backgroundImage ''#'' then SolidColor
      else if startsWith backgroundImage ''linear-gradient'' then Gradient
      else NoBackground)"

text \<open>
  The classification as the specification words it: a hash sign first, then the prefix
  \<^verbatim>\<open>linear-gradient(\<close>, then the video tests, then static image.
\<close>

definition spec_class :: "string \<Rightarrow> bgClass" where
  "spec_class backgroundImage =
     (if startsWith backgroundImage ''#'' then SolidColor
      else if startsWith backgroundImage ''linear-gradient('' then Gradient
      else if startsWith backgroundImage ''data:video'' \<or> endsWith backgroundImage ''.mp4''
              \<or> endsWith backgroundImage ''.webm'' then Video
      else StaticImage)"

section \<open>Document model\<close>

text \<open>
  An object at run time may lack any of its fields: an update is a \<^verbatim>\<open>Partial<Slide>\<close>,
  and the spread of an undefined array element yields the object with no fields. One
  record with optional fields stands for both; a slide of the declared type has the first
  five fields present.
\<close>

record textStyle =
  color :: "string option"
  fontFamily :: "string option"
  fontWeight :: "string option"
  fontStyle :: "string option"
  fontSize :: "string option"

datatype animation = anim_none | anim_fade | anim_slide | anim_zoom

record Slide =
  id_slide :: "string option"
  title :: "string option"
  content :: "string list option"
  backgroundImage :: "string option"
  backgroundImageSearchQuery :: "string option"
  animation :: "animation option"
  titleStyle :: "textStyle option"
  contentStyle :: "textStyle option"

record Theme =
  name :: string
  tags :: "string list"
  colors_background :: string
  colors_text :: string
  colors_primary :: string
  fonts_title :: string
  fonts_body :: string

text \<open>
  An array element is a value, the value \<^verbatim>\<open>undefined\<close>, or a hole (an index below the
  length that was never written). Reading a hole gives \<^verbatim>\<open>undefined\<close>; copying with the
  spread syntax turns holes into \<^verbatim>\<open>undefined\<close>; \<^verbatim>\<open>filter\<close> skips holes; writing
  past the end extends the array and leaves holes in between.
\<close>

datatype 'a cell = Hole | Undefined | Val 'a

record Presentation =
  id_presentation :: string
  userId :: string
  topic :: string
  slides :: "Slide cell list"
  theme :: Theme
  subTitle :: "string option"
  companyLogo :: "string option"
  companyWebsite :: "string option"

definition read_cell :: "'a cell \<Rightarrow> 'a cell" where
  "read_cell c = (case c of Hole \<Rightarrow> Undefined | Undefined \<Rightarrow> Undefined | Val v \<Rightarrow> Val v)"

definition spread_array :: "'a cell list \<Rightarrow> 'a cell list" where
  "spread_array xs = map read_cell xs"

definition array_get :: "'a cell list \<Rightarrow> nat \<Rightarrow> 'a cell" where
  "array_get xs i = (if i < length xs then read_cell (xs ! i) else Undefined)"

definition array_set :: "'a cell list \<Rightarrow> nat \<Rightarrow> 'a cell \<Rightarrow> 'a cell list" where
  "array_set xs i v =
     (if i < length xs then xs[i := v]
      else xs @ replicate (i - length xs) Hole @ [v])"

text \<open>
  \<^verbatim>\<open>xs.filter((element, i) => ...)\<close>: the callback gets the element and its index; the
  counter starts at \<open>k\<close>.
\<close>

fun array_filter :: "('a cell \<Rightarrow> nat \<Rightarrow> bool) \<Rightarrow> nat \<Rightarrow> 'a cell list \<Rightarrow> 'a cell list" where
  "array_filter callback k [] = []"
| "array_filter callback k (c # cs) =
     (if c \<noteq> Hole \<and> callback c k then c # array_filter callback (Suc k) cs
      else array_filter callback (Suc k) cs)"

text \<open>The object with no fields, and \<^verbatim>\<open>{ ...a, ...b }\<close>: a field of \<open>b\<close> wins.\<close>

definition empty_object :: Slide where
  "empty_object =
     \<lparr>id_slide = None, title = None, content = None, backgroundImage = None,
      backgroundImageSearchQuery = None, animation = None, titleStyle = None,
      contentStyle = None\<rparr>"

definition or_else :: "'a option \<Rightarrow> 'a option \<Rightarrow> 'a option" where
  "or_else b a = (case b of Some v \<Rightarrow> Some v | None \<Rightarrow> a)"

definition spread_merge :: "Slide \<Rightarrow> Slide \<Rightarrow> Slide" where
  "spread_merge a b =
     \<lparr>id_slide = or_else (id_slide b) (id_slide a),
      title = or_else (title b) (title a),
      content = or_else (content b) (content a),
      backgroundImage = or_else (backgroundImage b) (backgroundImage a),
      backgroundImageSearchQuery =
        or_else (backgroundImageSearchQuery b) (backgroundImageSearchQuery a),
      animation = or_else (animation b) (animation a),
      titleStyle = or_else (titleStyle b) (titleStyle a),
      contentStyle = or_else (contentStyle b) (contentStyle a)\<rparr>"

definition spread_object :: "Slide cell \<Rightarrow> Slide" where
  "spread_object c = (case c of Val s \<Rightarrow> s | Undefined \<Rightarrow> empty_object | Hole \<Rightarrow> empty_object)"

section \<open>Editor state and slide mutations\<close>

text \<open>
  The state of \<^verbatim>\<open>EditorPage\<close> that the handlers read and write. The handlers exist only
  once the presentation is loaded, so the presentation is not null here. The index starts
  at 0 and every decrement in the source is guarded, so it is a natural number.
  \<^verbatim>\<open>setPresentation\<close> is the \<^verbatim>\<open>set\<close> of the history; the field \<open>presentation\<close> holds
  the snapshot a handler passes to it.
\<close>

record Editor =
  presentation :: Presentation
  selectedSlideIndex :: nat
  toastMessage :: "string option"
  aiContentPrompt :: string
  isAiLoading :: bool

definition setPresentation :: "Presentation \<Rightarrow> Editor \<Rightarrow> Editor" where
  "setPresentation p e = e\<lparr>presentation := p\<rparr>"

definition updateSlide :: "Slide \<Rightarrow> Editor \<Rightarrow> Editor" where
  "updateSlide updates e =
     (let newSlides = spread_array (slides (presentation e));
          newSlides = array_set newSlides (selectedSlideIndex e)
             (Val (spread_merge (spread_object (array_get newSlides (selectedSlideIndex e)))
                                updates))
      in setPresentation ((presentation e)\<lparr>slides := newSlides\<rparr>) e)"

datatype direction = up | down

text \<open>
  The swap \<^verbatim>\<open>[xs[i], xs[j]] = [xs[j], xs[i]]\<close> reads both elements, then writes
  \<^verbatim>\<open>xs[i]\<close>, then \<^verbatim>\<open>xs[j]\<close>.
\<close>

definition swap_cells :: "'a cell list \<Rightarrow> nat \<Rightarrow> nat \<Rightarrow> 'a cell list" where
  "swap_cells xs i j =
     (let a = array_get xs j; b = array_get xs i
      in array_set (array_set xs i a) j b)"

definition handleMoveSlide :: "direction \<Rightarrow> Editor \<Rightarrow> Editor" where
  "handleMoveSlide direction e =
     (if direction = up \<and> selectedSlideIndex e > 0 then
        (let newSlides = spread_array (slides (presentation e));
             newSlides = swap_cells newSlides (selectedSlideIndex e) (selectedSlideIndex e - 1)
         in (setPresentation ((presentation e)\<lparr>slides := newSlides\<rparr>) e)
              \<lparr>selectedSlideIndex := selectedSlideIndex e - 1\<rparr>)
      else if direction = down
              \<and> int (selectedSlideIndex e) < int (length (slides (presentation e))) - 1 then
        (let newSlides = spread_array (slides (presentation e));
             newSlides = swap_cells newSlides (selectedSlideIndex e) (selectedSlideIndex e + 1)
         in (setPresentation ((presentation e)\<lparr>slides := newSlides\<rparr>) e)
              \<lparr>selectedSlideIndex := selectedSlideIndex e + 1\<rparr>)
      else e)"

definition handleDeleteSlide :: "nat \<Rightarrow> Editor \<Rightarrow> Editor" where
  "handleDeleteSlide index e =
     (if length (slides (presentation e)) \<le> 1 then
        e\<lparr>toastMessage := Some ''Presentation must have at least one slide.''\<rparr>
      else
        (let newSlides = array_filter (\<lambda>_ i. i \<noteq> index) 0 (slides (presentation e));
             newIndex =
               (if index = selectedSlideIndex e then nat (max 0 (int index - 1))
                else if index < selectedSlideIndex e then selectedSlideIndex e - 1
                else selectedSlideIndex e)
         in (setPresentation ((presentation e)\<lparr>slides := newSlides\<rparr>) e)
              \<lparr>selectedSlideIndex := newIndex, toastMessage := Some ''Slide deleted.''\<rparr>))"

text \<open>
  The template \<^verbatim>\<open>`slide-${Date.now()}`\<close>: the clock reading, a count of milliseconds, in
  decimal.
\<close>

fun decimal :: "nat \<Rightarrow> string" where
  "decimal n =
     (if n < 10 then [''0123456789'' ! n]
      else decimal (n div 10) @ [''0123456789'' ! (n mod 10)])"

declare decimal.simps [simp del]

definition newSlide :: "nat \<Rightarrow> Slide" where
  "newSlide now =
     \<lparr>id_slide = Some (''slide-'' @ decimal now),
      title = Some ''New Slide'',
      content = Some [''Click to edit content''],
      backgroundImage = Some ''#FFFFFF'',
      backgroundImageSearchQuery = Some ''abstract'',
      animation = Some anim_none,
      titleStyle = None,
      contentStyle = None\<rparr>"

text \<open>The handler of the button "Add Slide"; \<open>now\<close> is what \<^verbatim>\<open>Date.now()\<close> returns.\<close>

definition addSlide_onClick :: "nat \<Rightarrow> Editor \<Rightarrow> Editor" where
  "addSlide_onClick now e =
     (setPresentation
        ((presentation e)\<lparr>slides := spread_array (slides (presentation e)) @ [Val (newSlide now)]\<rparr>)
        e)
     \<lparr>selectedSlideIndex := length (slides (presentation e))\<rparr>"

section \<open>Content refinement\<close>

text \<open>
  \<^verbatim>\<open>s.split('\n')\<close>: the pieces between the newline characters; a string without a
  newline is one piece, the empty string too.
\<close>

fun split_newline :: "string \<Rightarrow> string list" where
  "split_newline [] = [[]]"
| "split_newline (c # cs) =
     (if c = CHR 0x0A then [] # split_newline cs
      else (case split_newline cs of
              l # ls \<Rightarrow> (c # l) # ls
            | [] \<Rightarrow> [[c]]))"

text \<open>\<^verbatim>\<open>xs.join('\n')\<close>.\<close>

fun join_newline :: "string list \<Rightarrow> string" where
  "join_newline [] = []"
| "join_newline [l] = l"
| "join_newline (l # ls) = l @ CHR 0x0A # join_newline ls"

text \<open>
  \<^verbatim>\<open>s.trim()\<close> removes white space and line terminators at both ends: among the code
  units below 256 these are tab, line feed, vertical tab, form feed, carriage return, space
  and the no-break space.
\<close>

definition isWhiteSpace :: "char \<Rightarrow> bool" where
  "isWhiteSpace c =
     (c \<in> {CHR 0x09, CHR 0x0A, CHR 0x0B, CHR 0x0C, CHR 0x0D, CHR 0x20, CHR 0xA0})"

definition trim :: "string \<Rightarrow> string" where
  "trim s = rev (dropWhile isWhiteSpace (rev (dropWhile isWhiteSpace s)))"

text \<open>\<^verbatim>\<open>l.replace(/^- /, '')\<close>: a hyphen and a space at the start of the line are removed.\<close>

definition replace_marker :: "string \<Rightarrow> string" where
  "replace_marker l = (if startsWith l ''- '' then drop 2 l else l)"

definition parse_bullets :: "string \<Rightarrow> string list" where
  "parse_bullets newContent =
     map replace_marker (filter (\<lambda>l. length (trim l) > 0) (split_newline newContent))"

text \<open>
  The service \<^verbatim>\<open>generateSlideContentImprovement\<close>. The backend is a parameter: for the
  content and the instruction sent, the request is rejected (no connection), or answered
  with a status that is not ok and a message, or answered ok with a body whose field
  \<^verbatim>\<open>content\<close> is a string or is missing. \<^verbatim>\<open>handleResponse\<close> throws for a status that is
  not ok; the service catches every error and returns the content it was given.
\<close>

datatype response = Rejected | NotOk string | Ok "string option"

datatype js_error = Error string | TypeError

definition handleResponse :: "response \<Rightarrow> js_error + string option" where
  "handleResponse r =
     (case r of
        Rejected \<Rightarrow> Inl (Error ''Failed to fetch'')
      | NotOk detail \<Rightarrow> Inl (Error detail)
      | Ok data \<Rightarrow> Inr data)"

definition generateSlideContentImprovement ::
    "(string \<Rightarrow> string \<Rightarrow> response) \<Rightarrow> string \<Rightarrow> string \<Rightarrow> string" where
  "generateSlideContentImprovement backend currentContent instruction =
     (case handleResponse (backend currentContent instruction) of
        Inr data \<Rightarrow> (case data of Some c \<Rightarrow> (if c = [] then [] else c) | None \<Rightarrow> [])
      | Inl error \<Rightarrow> currentContent)"

text \<open>
  The body of the \<^verbatim>\<open>try\<close> of \<^verbatim>\<open>handleAiContentRefine\<close>. Reading
  \<^verbatim>\<open>selectedSlide.content\<close> throws when the selected element is undefined, and
  \<^verbatim>\<open>.join\<close> throws when the slide has no content.
\<close>

definition refine_attempt :: "(string \<Rightarrow> string \<Rightarrow> response) \<Rightarrow> Editor \<Rightarrow> js_error + Editor" where
  "refine_attempt backend e =
     (case array_get (slides (presentation e)) (selectedSlideIndex e) of
        Val selectedSlide \<Rightarrow>
          (case content selectedSlide of
             Some lines \<Rightarrow>
               (let newContent = generateSlideContentImprovement backend
                                   (join_newline lines) (aiContentPrompt e);
                    bullets = parse_bullets newContent
                in Inr ((updateSlide (empty_object\<lparr>content := Some bullets\<rparr>) e)
                          \<lparr>aiContentPrompt := [], toastMessage := Some ''Content refined!''\<rparr>))
           | None \<Rightarrow> Inl TypeError)
      | Undefined \<Rightarrow> Inl TypeError
      | Hole \<Rightarrow> Inl TypeError)"

definition handleAiContentRefine :: "(string \<Rightarrow> string \<Rightarrow> response) \<Rightarrow> Editor \<Rightarrow> Editor" where
  "handleAiContentRefine backend e =
     (if aiContentPrompt e = [] then e
      else
        (case refine_attempt backend (e\<lparr>isAiLoading := True\<rparr>) of
           Inr e' \<Rightarrow> e'\<lparr>isAiLoading := False\<rparr>
         | Inl error \<Rightarrow>
             e\<lparr>toastMessage := Some ''Failed to refine content.'', isAiLoading := False\<rparr>))"

text \<open>Sample data for the examples.\<close>

definition sample_theme :: Theme where
  "sample_theme =
     \<lparr>name = ''Ocean'', tags = [''blue''], colors_background = ''#FFFFFF'',
      colors_text = ''#000000'', colors_primary = ''#3B82F6'',
      fonts_title = ''Arial'', fonts_body = ''Arial''\<rparr>"

definition sample_slide :: "string \<Rightarrow> string list \<Rightarrow> Slide" where
  "sample_slide i lines =
     \<lparr>id_slide = Some i, title = Some ''Title'', content = Some lines,
      backgroundImage = Some ''#FFFFFF'', backgroundImageSearchQuery = Some ''sea'',
      animation = None, titleStyle = None, contentStyle = None\<rparr>"

definition sample_editor :: "Slide list \<Rightarrow> nat \<Rightarrow> string \<Rightarrow> Editor" where
  "sample_editor ss sel prompt =
     \<lparr>presentation =
        \<lparr>id_presentation = ''p1'', userId = ''u1'', topic = ''Oceans'',
         slides = map Val ss, theme = sample_theme,
         subTitle = None, companyLogo = None, companyWebsite = None\<rparr>,
      selectedSlideIndex = sel, toastMessage = None, aiContentPrompt = prompt,
      isAiLoading = False\<rparr>"

section \<open>Properties of the history engine\<close>

lemma same_serialisation_refl: "same_serialisation stringify x x"
  by (simp add: same_serialisation_def)

lemma future_set_hist:
  "future state = [] \<Longrightarrow> future (set_hist stringify x state) = []"
  by (simp add: set_hist_def)

lemma future_foldl_set_hist:
  "future state = [] \<Longrightarrow> future (foldl (\<lambda>s x. set_hist stringify x s) state xs) = []"
  by (induction xs arbitrary: state) (simp_all add: future_set_hist)

lemma future_after_sets: "future (after_sets stringify init xs) = []"
  by (simp add: after_sets_def future_foldl_set_hist useHistory_def)

lemma take_last_nth: "xs \<noteq> [] \<Longrightarrow> take (length xs - 1) xs @ [xs ! (length xs - 1)] = xs"
  by (metis append_butlast_last_id butlast_conv_take last_conv_nth)

lemma redo_undo_nonempty_past:
  assumes "past state \<noteq> []"
  shows "redo (undo state) = state"
proof -
  let ?n = "length (past state) - 1"
  have u: "undo state = \<lparr>past = take ?n (past state), present = past state ! ?n,
                          future = present state # future state\<rparr>"
    using assms by (simp add: undo_def canUndo_def)
  have "redo (undo state) = \<lparr>past = take ?n (past state) @ [past state ! ?n],
                              present = present state, future = future state\<rparr>"
    unfolding u by (simp add: redo_def canRedo_def)
  also have "\<dots> = \<lparr>past = past state, present = present state, future = future state\<rparr>"
    using take_last_nth [OF assms] by simp
  finally show ?thesis by simp
qed

lemma redo_undo_empty_future:
  assumes "past state = []" and "future state = []"
  shows "redo (undo state) = state"
  using assms by (simp add: undo_def redo_def canUndo_def canRedo_def)

text \<open>
  C2. After any sequence of \<^verbatim>\<open>set\<close> calls, \<^verbatim>\<open>undo()\<close> followed by \<^verbatim>\<open>redo()\<close>
  gives back the history state as it was before the \<^verbatim>\<open>undo()\<close>: the same present, the
  same past and the same future.
\<close>

theorem undo_redo_inverse:
  "redo (undo (after_sets stringify init xs)) = after_sets stringify init xs"
proof (cases "past (after_sets stringify init xs) = []")
  case True
  then show ?thesis
    by (rule redo_undo_empty_future) (rule future_after_sets)
next
  case False
  then show ?thesis by (rule redo_undo_nonempty_past)
qed

theorem undo_redo_inverse_witness:
  "redo (undo (after_sets stringify_titled \<lparr>title_of = ''A''\<rparr>
                 [\<lparr>title_of = ''B''\<rparr>, \<lparr>title_of = ''C''\<rparr>]))
   = \<lparr>past = [\<lparr>title_of = ''A''\<rparr>, \<lparr>title_of = ''B''\<rparr>], present = \<lparr>title_of = ''C''\<rparr>, future = []\<rparr>"
  using undo_redo_inverse [of stringify_titled "\<lparr>title_of = ''A''\<rparr>"
      "[\<lparr>title_of = ''B''\<rparr>, \<lparr>title_of = ''C''\<rparr>]"]
  by (simp add: after_sets_def useHistory_def set_hist_def same_serialisation_def
      stringify_titled_def)

text \<open>The history states and values of the examples below.\<close>

lemma stringify_title_A:
  "JSON_stringify (JObject [(''title'', JString ''A'')]) = Some ''{\"title\":\"A\"}''"
  by (simp add: QuoteJSONString_def escape_unit_def)

lemma undo_after_set_B:
  "undo (after_sets JSON_stringify (JObject [(''title'', JString ''A'')])
           [JObject [(''title'', JString ''B'')]])
     = \<lparr>past = [], present = JObject [(''title'', JString ''A'')],
        future = [JObject [(''title'', JString ''B'')]]\<rparr>"
  by (simp add: after_sets_def useHistory_def set_hist_def same_serialisation_def
      QuoteJSONString_def escape_unit_def undo_def canUndo_def)

text \<open>
  C3, as stated, fails. The objects \<^verbatim>\<open>{title:"A", animation:"fade"}\<close> and
  \<^verbatim>\<open>{animation:"fade", title:"A"}\<close> are deep-equal, their JSON texts differ in the order
  of the properties, and \<^verbatim>\<open>set\<close> records the second as a new edit: the past gets an
  entry.
\<close>

theorem set_deep_equal_counterexample:
  "deep_equal (JObject [(''animation'', JString ''fade''), (''title'', JString ''A'')])
     (present (useHistory (JObject [(''title'', JString ''A''), (''animation'', JString ''fade'')])))
   \<and> set_hist JSON_stringify
         (JObject [(''animation'', JString ''fade''), (''title'', JString ''A'')])
         (useHistory (JObject [(''title'', JString ''A''), (''animation'', JString ''fade'')]))
       \<noteq> useHistory (JObject [(''title'', JString ''A''), (''animation'', JString ''fade'')])
   \<and> length (past (set_hist JSON_stringify
         (JObject [(''animation'', JString ''fade''), (''title'', JString ''A'')])
         (useHistory (JObject [(''title'', JString ''A''), (''animation'', JString ''fade'')]))))
       = 1"
  by (simp add: useHistory_def set_hist_def same_serialisation_def QuoteJSONString_def
      escape_unit_def)

text \<open>
  C3, amended. \<^verbatim>\<open>set(x)\<close> is a no-op when the JSON text of \<open>x\<close> is the JSON text of the
  present: past, present and future keep their values and their lengths. This is so for
  every \<open>x\<close> that has the structure of the present with the properties in the same order;
  with present \<^verbatim>\<open>{title:"A"}\<close> and an empty past, \<^verbatim>\<open>set({title:"A"})\<close> leaves the past
  empty.
\<close>

theorem set_same_text_noop:
  assumes "stringify x = stringify (present state)"
  shows "set_hist stringify x state = state
       \<and> past (set_hist stringify x state) = past state
       \<and> present (set_hist stringify x state) = present state
       \<and> future (set_hist stringify x state) = future state
       \<and> length (past (set_hist stringify x state)) = length (past state)
       \<and> length (future (set_hist stringify x state)) = length (future state)"
proof -
  from assms have "same_serialisation stringify (present state) x"
    by (simp add: same_serialisation_def)
  then have "set_hist stringify x state = state"
    by (simp add: set_hist_def)
  then show ?thesis by simp
qed

theorem set_same_text_noop_witness:
  "JSON_stringify (JObject [(''title'', JString ''A'')])
     = JSON_stringify (present (useHistory (JObject [(''title'', JString ''A'')])))
   \<and> JSON_stringify (JObject [(''title'', JString ''A'')]) = Some ''{\"title\":\"A\"}''
   \<and> length (past (set_hist JSON_stringify (JObject [(''title'', JString ''A'')])
                      (useHistory (JObject [(''title'', JString ''A'')])))) = 0"
proof -
  let ?a = "JObject [(''title'', JString ''A'')]"
  have h: "JSON_stringify ?a = JSON_stringify (present (useHistory ?a))"
    by (simp only: useHistory_def HistoryState.simps)
  from set_same_text_noop [OF h]
  have "length (past (set_hist JSON_stringify ?a (useHistory ?a))) = length (past (useHistory ?a))"
    by blast
  then have "length (past (set_hist JSON_stringify ?a (useHistory ?a))) = 0"
    by (simp add: useHistory_def)
  with h stringify_title_A show ?thesis by blast
qed

text \<open>
  C4, as stated, fails. After \<^verbatim>\<open>set({title:"B"})\<close> and \<^verbatim>\<open>undo()\<close> the present is
  \<^verbatim>\<open>{title:"A"}\<close> and the future is not empty. The object
  \<^verbatim>\<open>{title:"A", subTitle:undefined}\<close> is not deep-equal to the present (it has a key more),
  a property whose value is \<^verbatim>\<open>undefined\<close> is left out of the JSON text, and \<^verbatim>\<open>set\<close>
  returns the state as it was: the future stays, and the present is not the new value.
\<close>

theorem set_clears_future_counterexample:
  "future (undo (after_sets JSON_stringify (JObject [(''title'', JString ''A'')])
                   [JObject [(''title'', JString ''B'')]])) \<noteq> []
   \<and> \<not> deep_equal (JObject [(''title'', JString ''A''), (''subTitle'', JUndefined)])
         (present (undo (after_sets JSON_stringify (JObject [(''title'', JString ''A'')])
                           [JObject [(''title'', JString ''B'')]])))
   \<and> future (set_hist JSON_stringify
               (JObject [(''title'', JString ''A''), (''subTitle'', JUndefined)])
               (undo (after_sets JSON_stringify (JObject [(''title'', JString ''A'')])
                        [JObject [(''title'', JString ''B'')]])))
       = [JObject [(''title'', JString ''B'')]]
   \<and> present (set_hist JSON_stringify
               (JObject [(''title'', JString ''A''), (''subTitle'', JUndefined)])
               (undo (after_sets JSON_stringify (JObject [(''title'', JString ''A'')])
                        [JObject [(''title'', JString ''B'')]])))
       \<noteq> JObject [(''title'', JString ''A''), (''subTitle'', JUndefined)]"
  unfolding undo_after_set_B
  by (simp add: set_hist_def same_serialisation_def QuoteJSONString_def escape_unit_def)

text \<open>
  C4, amended. When the future is not empty and the JSON text of \<open>y\<close> is not the JSON
  text of the present, \<^verbatim>\<open>set(y)\<close> gives the state with an empty future, present \<open>y\<close>,
  and the old past with the old present appended.
\<close>

theorem set_clears_future:
  assumes "future state \<noteq> []"
    and "stringify y \<noteq> stringify (present state)"
  shows "set_hist stringify y state
         = \<lparr>past = past state @ [present state], present = y, future = []\<rparr>"
proof -
  from assms(2) have "\<not> same_serialisation stringify (present state) y"
    by (simp add: same_serialisation_def eq_commute)
  then show ?thesis by (simp add: set_hist_def)
qed

theorem set_clears_future_witness:
  "future (undo (after_sets JSON_stringify (JObject [(''title'', JString ''A'')])
                   [JObject [(''title'', JString ''B'')]])) \<noteq> []
   \<and> JSON_stringify (JObject [(''title'', JString ''C'')])
       \<noteq> JSON_stringify (present (undo (after_sets JSON_stringify
             (JObject [(''title'', JString ''A'')]) [JObject [(''title'', JString ''B'')]])))
   \<and> set_hist JSON_stringify (JObject [(''title'', JString ''C'')])
         (undo (after_sets JSON_stringify (JObject [(''title'', JString ''A'')])
                  [JObject [(''title'', JString ''B'')]]))
       = \<lparr>past = [JObject [(''title'', JString ''A'')]],
          present = JObject [(''title'', JString ''C'')], future = []\<rparr>"
proof -
  let ?s = "undo (after_sets JSON_stringify (JObject [(''title'', JString ''A'')])
                    [JObject [(''title'', JString ''B'')]])"
  let ?c = "JObject [(''title'', JString ''C'')]"
  have h1: "future ?s \<noteq> []"
    by (simp add: undo_after_set_B)
  have h2: "JSON_stringify ?c \<noteq> JSON_stringify (present ?s)"
    by (simp add: undo_after_set_B QuoteJSONString_def escape_unit_def)
  from set_clears_future [OF h1 h2]
  have "set_hist JSON_stringify ?c ?s
          = \<lparr>past = past ?s @ [present ?s], present = ?c, future = []\<rparr>" .
  then have "set_hist JSON_stringify ?c ?s
          = \<lparr>past = [JObject [(''title'', JString ''A'')]], present = ?c, future = []\<rparr>"
    by (simp add: undo_after_set_B)
  with h1 h2 show ?thesis by blast
qed

section \<open>Properties of the background classification and of the export\<close>

lemma startsWith_Cons: "startsWith s (c # p) \<longleftrightarrow> (\<exists>t. s = c # t \<and> startsWith t p)"
  by (cases s) (auto simp add: startsWith_def)

lemma preview_class_eq:
  "preview_class s =
     (if startsWith s ''#'' then SolidColor
      else if startsWith s ''linear-gradient'' then Gradient
      else if isVideo s then Video
      else StaticImage)"
  by (simp add: preview_class_def SlideBackground_def isColor_def)

lemma hash_not_url:
  "startsWith s ''#'' \<Longrightarrow> \<not> startsWith s ''data:'' \<and> \<not> startsWith s ''http''"
  by (auto simp add: startsWith_Cons)

lemma gradient_not_url:
  "startsWith s ''linear-gradient'' \<Longrightarrow> \<not> startsWith s ''data:'' \<and> \<not> startsWith s ''http''"
  by (auto simp add: startsWith_Cons)

text \<open>The class the export uses is the branch in which it assigns the background.\<close>

lemma export_class_background:
  "export_class s =
     (case export_background s of
        None \<Rightarrow> NoBackground
      | Some (Path p) \<Rightarrow> StaticImage
      | Some (Color c) \<Rightarrow> (if startsWith s ''#'' then SolidColor else Gradient))"
  by (simp add: export_class_def export_background_def split: option.splits)

text \<open>
  C6, as stated, fails. A video data URI is drawn as a video by the preview and is handed
  to the export as an image path; a relative file name is drawn as an image by the preview
  and gets no background in the export; and the gradient test of the code is the prefix
  \<^verbatim>\<open>linear-gradient\<close>, without the parenthesis.
\<close>

theorem background_classes_counterexample:
  "preview_class ''data:video/mp4;base64,AAAA'' = Video
   \<and> export_class ''data:video/mp4;base64,AAAA'' = StaticImage
   \<and> preview_class ''data:video/mp4;base64,AAAA'' \<noteq> export_class ''data:video/mp4;base64,AAAA''
   \<and> preview_class ''photo.png'' \<noteq> export_class ''photo.png''
   \<and> preview_class ''linear-gradient'' \<noteq> spec_class ''linear-gradient''"
  by (simp add: preview_class_eq export_class_def spec_class_def isVideo_def
      startsWith_def endsWith_def)

text \<open>
  C6, amended. Both classifications are total: every string gets exactly one class, and no
  branch fails. The preview decides in the order hash sign, prefix \<^verbatim>\<open>linear-gradient\<close>,
  video tests, static image. The export decides in the order \<^verbatim>\<open>data:\<close> or \<^verbatim>\<open>http\<close>
  prefix (image path), hash sign, prefix \<^verbatim>\<open>linear-gradient\<close>, and otherwise sets no
  background. The two classes are equal exactly for the strings that begin with a hash sign,
  or with \<^verbatim>\<open>linear-gradient\<close>, or with \<^verbatim>\<open>data:\<close> or \<^verbatim>\<open>http\<close> and are not a video.
\<close>

theorem background_classes:
  "preview_class s =
     (if startsWith s ''#'' then SolidColor
      else if startsWith s ''linear-gradient'' then Gradient
      else if isVideo s then Video
      else StaticImage)
   \<and> export_class s =
     (if startsWith s ''data:'' \<or> startsWith s ''http'' then StaticImage
      else if startsWith s ''#'' then SolidColor
      else if startsWith s ''linear-gradient'' then Gradient
      else NoBackground)
   \<and> (export_class s = preview_class s \<longleftrightarrow>
        startsWith s ''#'' \<or> startsWith s ''linear-gradient''
        \<or> ((startsWith s ''data:'' \<or> startsWith s ''http'') \<and> \<not> isVideo s))"
proof -
  have agree: "export_class s = preview_class s \<longleftrightarrow>
        startsWith s ''#'' \<or> startsWith s ''linear-gradient''
        \<or> ((startsWith s ''data:'' \<or> startsWith s ''http'') \<and> \<not> isVideo s)"
  proof (cases "startsWith s ''#''")
    case True
    with hash_not_url [OF True] show ?thesis
      by (simp add: preview_class_eq export_class_def)
  next
    case nh: False
    show ?thesis
    proof (cases "startsWith s ''linear-gradient''")
      case True
      with gradient_not_url [OF True] nh show ?thesis
        by (simp add: preview_class_eq export_class_def)
    next
      case False
      with nh show ?thesis
        by (simp add: preview_class_eq export_class_def)
    qed
  qed
  show ?thesis
    using agree by (simp add: preview_class_eq export_class_def)
qed

theorem background_classes_witness:
  "map preview_class [''#112233'', ''linear-gradient(to right, #fff, #000)'',
                      ''data:video/mp4;base64,AAAA'', ''https://x/y.png'']
     = [SolidColor, Gradient, Video, StaticImage]
   \<and> export_class ''#112233'' = preview_class ''#112233''
   \<and> export_class ''https://x/y.png'' = preview_class ''https://x/y.png''"
  using background_classes [of "''#112233''"] background_classes [of "''https://x/y.png''"]
    background_classes [of "''linear-gradient(to right, #fff, #000)''"]
    background_classes [of "''data:video/mp4;base64,AAAA''"]
  by (simp add: isVideo_def startsWith_def endsWith_def)

text \<open>Where the pattern of the gradient fallback matches.\<close>

lemma hex_literal_at_Suc: "hex_literal_at (c # cs) (Suc i) = hex_literal_at cs i"
  by (auto simp add: hex_literal_at_def)

lemma hex_literal_at_0:
  "hex_literal_at (c # cs) 0
     = (c = CHR ''#'' \<and> 6 \<le> length cs \<and> list_all isHexDigit (take 6 cs))"
  by (auto simp add: hex_literal_at_def)

lemma match_hex6_None: "match_hex6 s = None \<longleftrightarrow> (\<forall>i. \<not> hex_literal_at s i)"
proof (induction s)
  case Nil
  then show ?case by (simp add: hex_literal_at_def)
next
  case (Cons c cs)
  show ?case
  proof (cases "hex_literal_at (c # cs) 0")
    case True
    then show ?thesis using hex_literal_at_0 [of c cs] by auto
  next
    case False
    then have "match_hex6 (c # cs) = match_hex6 cs"
      using hex_literal_at_0 [of c cs] by auto
    moreover have "(\<forall>i. \<not> hex_literal_at (c # cs) i) = (\<forall>i. \<not> hex_literal_at cs i)"
    proof
      assume a: "\<forall>i. \<not> hex_literal_at (c # cs) i"
      show "\<forall>i. \<not> hex_literal_at cs i"
        using a hex_literal_at_Suc [of c cs] by blast
    next
      assume a: "\<forall>i. \<not> hex_literal_at cs i"
      show "\<forall>i. \<not> hex_literal_at (c # cs) i"
      proof
        fix i
        show "\<not> hex_literal_at (c # cs) i"
          using a False by (cases i) (auto simp add: hex_literal_at_Suc)
      qed
    qed
    ultimately show ?thesis using Cons.IH by simp
  qed
qed

lemma match_hex6_first:
  "hex_literal_at s i \<Longrightarrow> (\<forall>j<i. \<not> hex_literal_at s j)
     \<Longrightarrow> match_hex6 s = Some (take 7 (drop i s))"
proof (induction s arbitrary: i)
  case Nil
  then show ?case by (simp add: hex_literal_at_def)
next
  case (Cons c cs)
  show ?case
  proof (cases i)
    case 0
    with Cons.prems(1) hex_literal_at_0 [of c cs] show ?thesis
      by (simp add: numeral_eq_Suc)
  next
    case (Suc k)
    with Cons.prems have k: "hex_literal_at cs k" and nz: "\<not> hex_literal_at (c # cs) 0"
      and before: "\<forall>j<k. \<not> hex_literal_at cs j"
      using hex_literal_at_Suc [of c cs] by auto
    from Cons.IH [OF k before] nz hex_literal_at_0 [of c cs] Suc show ?thesis by auto
  qed
qed

lemma all_less_list: "(\<forall>j<i. P j) = list_all P [0..<i]"
  by (auto simp add: list_all_iff)

text \<open>
  C7. For a background that starts with \<^verbatim>\<open>linear-gradient\<close>, the export sets a flat
  colour: the six hexadecimal digits of the first six-digit colour literal of the
  expression, without the hash sign, and \<^verbatim>\<open>FFFFFF\<close> when the expression has no such
  literal. For \<^verbatim>\<open>linear-gradient(135deg, #667eea 0%, #764ba2 100%)\<close> the colour is
  \<^verbatim>\<open>667eea\<close>.
\<close>

theorem export_gradient_fallback:
  assumes "startsWith s ''linear-gradient''"
  shows "(hex_literal_at s i \<and> (\<forall>j<i. \<not> hex_literal_at s j)
            \<longrightarrow> export_background s = Some (Color (take 6 (drop (Suc i) s))))
       \<and> ((\<forall>i. \<not> hex_literal_at s i) \<longrightarrow> export_background s = Some (Color ''FFFFFF''))"
proof -
  from gradient_not_url [OF assms]
  have nu: "\<not> startsWith s ''data:''" "\<not> startsWith s ''http''"
    by simp_all
  from assms have nh: "\<not> startsWith s ''#''"
    by (auto simp add: startsWith_Cons)
  have eb: "export_background s =
              (case match_hex6 s of
                 Some m \<Rightarrow> Some (Color (replace_hash m))
               | None \<Rightarrow> Some (Color ''FFFFFF''))"
    using nu nh assms by (simp add: export_background_def)
  have a: "export_background s = Some (Color (take 6 (drop (Suc i) s)))"
    if lit: "hex_literal_at s i" and first: "\<forall>j<i. \<not> hex_literal_at s j"
  proof -
    from match_hex6_first [OF lit first]
    have m: "match_hex6 s = Some (take 7 (drop i s))" .
    from lit have len: "i < length s" and hash: "s ! i = CHR ''#''"
      by (simp_all add: hex_literal_at_def)
    from len have "drop i s = s ! i # drop (Suc i) s"
      by (simp add: Cons_nth_drop_Suc)
    with hash have "take 7 (drop i s) = CHR ''#'' # take 6 (drop (Suc i) s)"
      by (simp add: numeral_eq_Suc)
    then show ?thesis using m eb by (simp add: replace_hash_def)
  qed
  have b: "export_background s = Some (Color ''FFFFFF'')" if "\<forall>i. \<not> hex_literal_at s i"
    using that match_hex6_None [of s] eb by simp
  from a b show ?thesis by blast
qed

theorem export_gradient_fallback_witness:
  "startsWith ''linear-gradient(135deg, #667eea 0%, #764ba2 100%)'' ''linear-gradient''
   \<and> hex_literal_at ''linear-gradient(135deg, #667eea 0%, #764ba2 100%)'' 24
   \<and> list_all (\<lambda>j. \<not> hex_literal_at ''linear-gradient(135deg, #667eea 0%, #764ba2 100%)'' j)
         [0..<24]
   \<and> export_background ''linear-gradient(135deg, #667eea 0%, #764ba2 100%)''
       = Some (Color ''667eea'')
   \<and> startsWith ''linear-gradient(to right, red, blue)'' ''linear-gradient''
   \<and> (\<forall>i. \<not> hex_literal_at ''linear-gradient(to right, red, blue)'' i)
   \<and> export_background ''linear-gradient(to right, red, blue)'' = Some (Color ''FFFFFF'')"
proof -
  let ?s = "''linear-gradient(135deg, #667eea 0%, #764ba2 100%)''"
  let ?t = "''linear-gradient(to right, red, blue)''"
  have h0: "startsWith ?s ''linear-gradient''"
    by (simp add: startsWith_def)
  have h1: "hex_literal_at ?s 24"
    by code_simp
  have h2: "\<forall>j<24. \<not> hex_literal_at ?s j"
    unfolding all_less_list by code_simp
  have k0: "startsWith ?t ''linear-gradient''"
    by (simp add: startsWith_def)
  have m: "match_hex6 ?t = None"
    by code_simp
  have k1: "\<forall>i. \<not> hex_literal_at ?t i"
    using m match_hex6_None [of ?t] by blast
  from export_gradient_fallback [OF h0, of 24] h1 h2
  have r1: "export_background ?s = Some (Color ''667eea'')"
    by simp
  from export_gradient_fallback [OF k0] k1
  have r2: "export_background ?t = Some (Color ''FFFFFF'')"
    by blast
  from h2 have h2': "list_all (\<lambda>j. \<not> hex_literal_at ?s j) [0..<24]"
    by (simp only: all_less_list)
  from h0 h1 h2' r1 k0 k1 r2 show ?thesis
    by blast
qed

section \<open>Properties of the slide mutations\<close>

lemma read_cell_dense: "c \<noteq> Hole \<Longrightarrow> read_cell c = c"
  by (cases c) (simp_all add: read_cell_def)

lemma length_spread_array: "length (spread_array xs) = length xs"
  by (simp add: spread_array_def)

lemma spread_array_dense: "Hole \<notin> set xs \<Longrightarrow> spread_array xs = xs"
  by (induction xs) (auto simp add: spread_array_def read_cell_dense)

lemma length_array_set: "length (array_set xs i v) = max (length xs) (Suc i)"
  by (simp add: array_set_def)

lemma array_set_nonempty: "array_set xs i v \<noteq> []"
proof -
  have "0 < length (array_set xs i v)"
    by (simp add: length_array_set)
  then show ?thesis by blast
qed

lemma array_filter_keep_all:
  "Hole \<notin> set xs \<Longrightarrow> index < k \<Longrightarrow> array_filter (\<lambda>_ j. j \<noteq> index) k xs = xs"
  by (induction xs arbitrary: k) auto

lemma array_filter_remove:
  "Hole \<notin> set xs \<Longrightarrow> array_filter (\<lambda>_ j. j \<noteq> k + i) k xs = take i xs @ drop (Suc i) xs"
proof (induction xs arbitrary: k i)
  case Nil
  then show ?case by simp
next
  case (Cons c cs)
  show ?case
  proof (cases i)
    case 0
    with Cons.prems show ?thesis by (simp add: array_filter_keep_all)
  next
    case (Suc m)
    from Cons.prems have "Hole \<notin> set cs" by simp
    from Cons.IH [OF this, of "Suc k" m] Cons.prems Suc show ?thesis by auto
  qed
qed

lemma array_filter_index:
  "Hole \<notin> set xs \<Longrightarrow> array_filter (\<lambda>_ j. j \<noteq> i) 0 xs = take i xs @ drop (Suc i) xs"
  using array_filter_remove [of xs 0 i] by simp

text \<open>
  C1. Updating the selected slide, moving it, deleting a slide and adding a slide each give
  a presentation that still has a slide when the presentation had one; deleting from a
  presentation with exactly one slide leaves the presentation and the selection as they
  were. The first three hold for every array and every selection index. \<^verbatim>\<open>filter\<close> skips
  holes, so the statement for delete is about arrays without holes, which is what a value
  of the type \<^verbatim>\<open>Slide[]\<close> built by the application is.
\<close>

theorem slides_never_empty:
  assumes "slides (presentation e) \<noteq> []"
  shows "slides (presentation (updateSlide updates e)) \<noteq> []
       \<and> slides (presentation (handleMoveSlide direction e)) \<noteq> []
       \<and> slides (presentation (addSlide_onClick now e)) \<noteq> []
       \<and> (Hole \<notin> set (slides (presentation e)) \<longrightarrow>
             slides (presentation (handleDeleteSlide index e)) \<noteq> [])
       \<and> (length (slides (presentation e)) = 1 \<longrightarrow>
             presentation (handleDeleteSlide index e) = presentation e
             \<and> selectedSlideIndex (handleDeleteSlide index e) = selectedSlideIndex e)"
proof -
  let ?xs = "slides (presentation e)"
  have upd: "slides (presentation (updateSlide updates e)) \<noteq> []"
    by (simp add: updateSlide_def setPresentation_def Let_def array_set_nonempty)
  have sw: "\<And>i j. swap_cells (spread_array ?xs) i j \<noteq> []"
    by (simp add: swap_cells_def Let_def array_set_nonempty)
  have mv: "slides (presentation (handleMoveSlide direction e)) \<noteq> []"
    using assms sw by (simp add: handleMoveSlide_def setPresentation_def Let_def)
  have add: "slides (presentation (addSlide_onClick now e)) \<noteq> []"
    by (simp add: addSlide_onClick_def setPresentation_def)
  have del: "slides (presentation (handleDeleteSlide index e)) \<noteq> []"
    if dense: "Hole \<notin> set ?xs"
  proof (cases "length ?xs \<le> 1")
    case True
    with assms show ?thesis by (simp add: handleDeleteSlide_def)
  next
    case False
    then have "slides (presentation (handleDeleteSlide index e))
                 = take index ?xs @ drop (Suc index) ?xs"
      by (simp add: handleDeleteSlide_def setPresentation_def Let_def
          array_filter_index [OF dense])
    moreover have "length (take index ?xs @ drop (Suc index) ?xs) \<ge> 1"
      using False by (auto simp add: min_def)
    ultimately show ?thesis by auto
  qed
  have one: "presentation (handleDeleteSlide index e) = presentation e
             \<and> selectedSlideIndex (handleDeleteSlide index e) = selectedSlideIndex e"
    if "length ?xs = 1"
    using that by (simp add: handleDeleteSlide_def)
  from upd mv add del one show ?thesis by blast
qed

theorem slides_never_empty_witness:
  "slides (presentation (sample_editor [sample_slide ''s1'' []] 0 [])) \<noteq> []
   \<and> Hole \<notin> set (slides (presentation (sample_editor [sample_slide ''s1'' []] 0 [])))
   \<and> length (slides (presentation (sample_editor [sample_slide ''s1'' []] 0 []))) = 1
   \<and> slides (presentation (updateSlide (empty_object\<lparr>title := Some ''Seas''\<rparr>)
         (sample_editor [sample_slide ''s1'' []] 0 []))) \<noteq> []
   \<and> slides (presentation (handleMoveSlide down (sample_editor [sample_slide ''s1'' []] 0 []))) \<noteq> []
   \<and> slides (presentation (addSlide_onClick 1700000000000
         (sample_editor [sample_slide ''s1'' []] 0 []))) \<noteq> []
   \<and> slides (presentation (handleDeleteSlide 0 (sample_editor [sample_slide ''s1'' []] 0 []))) \<noteq> []
   \<and> presentation (handleDeleteSlide 0 (sample_editor [sample_slide ''s1'' []] 0 []))
       = presentation (sample_editor [sample_slide ''s1'' []] 0 [])"
proof -
  let ?e = "sample_editor [sample_slide ''s1'' []] 0 []"
  have h: "slides (presentation ?e) \<noteq> []"
    by (simp add: sample_editor_def)
  have d: "Hole \<notin> set (slides (presentation ?e))"
    by (simp add: sample_editor_def)
  have l: "length (slides (presentation ?e)) = 1"
    by (simp add: sample_editor_def)
  from slides_never_empty [OF h, of "empty_object\<lparr>title := Some ''Seas''\<rparr>" down 1700000000000 0]
    h d l
  show ?thesis by blast
qed

text \<open>
  C5. With exactly one slide, delete at any index leaves the presentation as it was and
  sets a notice. With \<open>N > 1\<close> slides, deleting index \<open>i\<close> (an index of the array)
  gives the \<open>N - 1\<close> other slides in their order, and the selection \<open>s\<close> becomes
  \<open>max 0 (i - 1)\<close> when \<open>i = s\<close>, \<open>s - 1\<close> when \<open>i < s\<close>, and stays \<open>s\<close> when
  \<open>i > s\<close>.
\<close>

theorem delete_slide:
  assumes xs: "xs = slides (presentation e)" and s: "s = selectedSlideIndex e"
  shows "(length xs = 1 \<longrightarrow>
            presentation (handleDeleteSlide i e) = presentation e
            \<and> toastMessage (handleDeleteSlide i e)
                = Some ''Presentation must have at least one slide.'')
       \<and> (1 < length xs \<and> i < length xs \<and> Hole \<notin> set xs \<longrightarrow>
            slides (presentation (handleDeleteSlide i e)) = take i xs @ drop (Suc i) xs
            \<and> length (slides (presentation (handleDeleteSlide i e))) = length xs - 1
            \<and> int (selectedSlideIndex (handleDeleteSlide i e))
                = (if i = s then max 0 (int i - 1)
                   else if i < s then int s - 1
                   else int s))"
proof -
  have one: "presentation (handleDeleteSlide i e) = presentation e
            \<and> toastMessage (handleDeleteSlide i e)
                = Some ''Presentation must have at least one slide.''"
    if "length xs = 1"
    using that xs by (simp add: handleDeleteSlide_def)
  have many: "slides (presentation (handleDeleteSlide i e)) = take i xs @ drop (Suc i) xs
            \<and> length (slides (presentation (handleDeleteSlide i e))) = length xs - 1
            \<and> int (selectedSlideIndex (handleDeleteSlide i e))
                = (if i = s then max 0 (int i - 1)
                   else if i < s then int s - 1
                   else int s)"
    if n: "1 < length xs" and i: "i < length xs" and dense: "Hole \<notin> set xs"
  proof -
    from n xs have big: "\<not> length (slides (presentation e)) \<le> 1" by simp
    have sl: "slides (presentation (handleDeleteSlide i e)) = take i xs @ drop (Suc i) xs"
      using big dense xs
      by (simp add: handleDeleteSlide_def setPresentation_def Let_def array_filter_index)
    have len: "length (take i xs @ drop (Suc i) xs) = length xs - 1"
      using i by simp
    have ix: "int (selectedSlideIndex (handleDeleteSlide i e))
                = (if i = s then max 0 (int i - 1)
                   else if i < s then int s - 1
                   else int s)"
      using big s by (auto simp add: handleDeleteSlide_def setPresentation_def Let_def)
    from sl len ix show ?thesis by simp
  qed
  from one many show ?thesis by blast
qed

theorem delete_slide_witness:
  "slides (presentation (handleDeleteSlide 0
       (sample_editor [sample_slide ''s1'' [], sample_slide ''s2'' [], sample_slide ''s3'' []] 1 [])))
     = [Val (sample_slide ''s2'' []), Val (sample_slide ''s3'' [])]
   \<and> selectedSlideIndex (handleDeleteSlide 0
       (sample_editor [sample_slide ''s1'' [], sample_slide ''s2'' [], sample_slide ''s3'' []] 1 [])) = 0
   \<and> presentation (handleDeleteSlide 0 (sample_editor [sample_slide ''s1'' []] 0 []))
       = presentation (sample_editor [sample_slide ''s1'' []] 0 [])
   \<and> toastMessage (handleDeleteSlide 0 (sample_editor [sample_slide ''s1'' []] 0 []))
       = Some ''Presentation must have at least one slide.''"
proof -
  let ?e = "sample_editor [sample_slide ''s1'' [], sample_slide ''s2'' [], sample_slide ''s3'' []] 1 []"
  let ?xs = "[Val (sample_slide ''s1'' []), Val (sample_slide ''s2'' []), Val (sample_slide ''s3'' [])]"
  let ?f = "sample_editor [sample_slide ''s1'' []] 0 []"
  have xs: "?xs = slides (presentation ?e)" and s: "1 = selectedSlideIndex ?e"
    by (simp_all add: sample_editor_def)
  have hyp: "1 < length ?xs \<and> 0 < length ?xs \<and> Hole \<notin> set ?xs"
    by simp
  from delete_slide [OF xs s, of 0] hyp
  have many: "slides (presentation (handleDeleteSlide 0 ?e)) = take 0 ?xs @ drop (Suc 0) ?xs
      \<and> int (selectedSlideIndex (handleDeleteSlide 0 ?e)) = (if (0::nat) < 1 then int 1 - 1 else int 1)"
    by simp
  have ys: "[Val (sample_slide ''s1'' [])] = slides (presentation ?f)"
    and t: "0 = selectedSlideIndex ?f"
    by (simp_all add: sample_editor_def)
  from delete_slide [OF ys t, of 0]
  have one: "presentation (handleDeleteSlide 0 ?f) = presentation ?f
      \<and> toastMessage (handleDeleteSlide 0 ?f) = Some ''Presentation must have at least one slide.''"
    by simp
  from many one show ?thesis by simp
qed

lemma decimal_small: "n < 10 \<Longrightarrow> decimal n = [''0123456789'' ! n]"
  by (subst decimal.simps) simp

lemma decimal_big:
  "\<not> n < 10 \<Longrightarrow> decimal n = decimal (n div 10) @ [''0123456789'' ! (n mod 10)]"
  by (subst decimal.simps) simp

lemma decimal_nonempty: "decimal n \<noteq> []"
  by (cases "n < 10") (simp_all add: decimal_small decimal_big)

lemma digit_inj:
  assumes "a < 10" and "b < 10" and "''0123456789'' ! a = ''0123456789'' ! b"
  shows "a = b"
proof -
  have d: "distinct ''0123456789''" by simp
  have "a < length ''0123456789''" "b < length ''0123456789''"
    using assms by simp_all
  with d assms(3) show ?thesis
    using nth_eq_iff_index_eq by blast
qed

lemma singleton_append: "[a] = xs @ [b] \<Longrightarrow> xs = []"
  by (cases xs) simp_all

lemma decimal_inj: "decimal n = decimal m \<Longrightarrow> n = m"
proof (induction n arbitrary: m rule: decimal.induct)
  case (1 n)
  show ?case
  proof (cases "n < 10")
    case nsmall: True
    show ?thesis
    proof (cases "m < 10")
      case True
      with nsmall "1.prems" have "''0123456789'' ! n = ''0123456789'' ! m"
        by (simp only: decimal_small list.inject)
      with nsmall True show ?thesis by (rule digit_inj)
    next
      case False
      from "1.prems" have "[''0123456789'' ! n] = decimal (m div 10) @ [''0123456789'' ! (m mod 10)]"
        by (simp only: decimal_small [OF nsmall] decimal_big [OF False])
      then have "decimal (m div 10) = []"
        by (rule singleton_append)
      with decimal_nonempty [of "m div 10"] show ?thesis by simp
    qed
  next
    case nbig: False
    show ?thesis
    proof (cases "m < 10")
      case True
      from "1.prems" have "decimal (n div 10) @ [''0123456789'' ! (n mod 10)] = [''0123456789'' ! m]"
        by (simp only: decimal_small [OF True] decimal_big [OF nbig])
      then have "decimal (n div 10) = []"
        by (rule singleton_append [OF sym])
      with decimal_nonempty [of "n div 10"] show ?thesis by simp
    next
      case False
      from "1.prems" have "decimal (n div 10) @ [''0123456789'' ! (n mod 10)]
              = decimal (m div 10) @ [''0123456789'' ! (m mod 10)]"
        by (simp only: decimal_big [OF False] decimal_big [OF nbig])
      then have eq: "decimal (n div 10) = decimal (m div 10)"
        and dg: "''0123456789'' ! (n mod 10) = ''0123456789'' ! (m mod 10)"
        by (simp_all only: append1_eq_conv)
      from "1.IH" [OF nbig eq] have q: "n div 10 = m div 10" .
      have "n mod 10 < 10" "m mod 10 < 10" by simp_all
      from digit_inj [OF this dg] have r: "n mod 10 = m mod 10" .
      from q r show ?thesis
        by (metis div_mult_mod_eq)
    qed
  qed
qed

lemma array_get_spread: "array_get (spread_array xs) i = array_get xs i"
  by (cases "xs ! i") (simp_all add: array_get_def spread_array_def read_cell_def)

text \<open>
  C10, as stated, fails. Two clicks at the same clock reading give two slides with the
  same id, so the id of an added slide need not differ from the ids in the presentation;
  and the new slide has the search query \<^verbatim>\<open>abstract\<close>, not an unset one.
\<close>

theorem add_slide_counterexample:
  "id_slide (newSlide 1700000000000) = Some ''slide-1700000000000''
   \<and> Val (newSlide 1700000000000)
       \<in> set (slides (presentation (addSlide_onClick 1700000000000
                 (sample_editor [sample_slide ''s1'' []] 0 []))))
   \<and> last (slides (presentation (addSlide_onClick 1700000000000
               (addSlide_onClick 1700000000000 (sample_editor [sample_slide ''s1'' []] 0 [])))))
       = Val (newSlide 1700000000000)
   \<and> backgroundImageSearchQuery (newSlide 1700000000000) \<noteq> None
   \<and> backgroundImageSearchQuery (newSlide 1700000000000) \<noteq> Some []
   \<and> backgroundImageSearchQuery (newSlide 1700000000000) = Some ''abstract''"
proof -
  have "decimal 1700000000000 = ''1700000000000''"
    by (simp add: decimal.simps)
  then show ?thesis
    by (simp add: newSlide_def addSlide_onClick_def setPresentation_def)
qed

text \<open>
  C10, amended. Add appends exactly one slide at the end and selects it (the new last
  index is the previous length); reading any earlier index gives the element that was
  there. The new slide has the id \<^verbatim>\<open>slide-\<close> followed by the clock reading in decimal,
  which differs from the id made at any other clock reading and is not compared with the
  ids in the presentation; its title is "New Slide", its content the one line
  "Click to edit content", its background \<^verbatim>\<open>#FFFFFF\<close>, its search query
  \<^verbatim>\<open>abstract\<close>, its animation \<^verbatim>\<open>none\<close>, and it has no style of its own.
\<close>

theorem add_slide:
  "slides (presentation (addSlide_onClick now e))
     = spread_array (slides (presentation e)) @ [Val (newSlide now)]
   \<and> length (slides (presentation (addSlide_onClick now e)))
       = length (slides (presentation e)) + 1
   \<and> (\<forall>i < length (slides (presentation e)).
         array_get (slides (presentation (addSlide_onClick now e))) i
           = array_get (slides (presentation e)) i)
   \<and> (Hole \<notin> set (slides (presentation e)) \<longrightarrow>
         take (length (slides (presentation e))) (slides (presentation (addSlide_onClick now e)))
           = slides (presentation e))
   \<and> selectedSlideIndex (addSlide_onClick now e) = length (slides (presentation e))
   \<and> id_slide (newSlide now) = Some (''slide-'' @ decimal now)
   \<and> (\<forall>now'. now' \<noteq> now \<longrightarrow> id_slide (newSlide now') \<noteq> id_slide (newSlide now))
   \<and> title (newSlide now) = Some ''New Slide''
   \<and> content (newSlide now) = Some [''Click to edit content'']
   \<and> backgroundImage (newSlide now) = Some ''#FFFFFF''
   \<and> backgroundImageSearchQuery (newSlide now) = Some ''abstract''
   \<and> animation (newSlide now) = Some anim_none
   \<and> titleStyle (newSlide now) = None
   \<and> contentStyle (newSlide now) = None"
proof -
  let ?xs = "slides (presentation e)"
  let ?ys = "slides (presentation (addSlide_onClick now e))"
  have sl: "?ys = spread_array ?xs @ [Val (newSlide now)]"
    by (simp add: addSlide_onClick_def setPresentation_def)
  have len: "length ?ys = length ?xs + 1"
    by (simp add: sl length_spread_array)
  have old: "\<forall>i < length ?xs. array_get ?ys i = array_get ?xs i"
  proof (intro allI impI)
    fix i assume i: "i < length ?xs"
    then have "array_get ?ys i = array_get (spread_array ?xs) i"
      by (simp add: sl array_get_def length_spread_array nth_append)
    then show "array_get ?ys i = array_get ?xs i"
      by (simp add: array_get_spread)
  qed
  have dense: "Hole \<notin> set ?xs \<longrightarrow> take (length ?xs) ?ys = ?xs"
    by (simp add: sl spread_array_dense)
  have sel: "selectedSlideIndex (addSlide_onClick now e) = length ?xs"
    by (simp add: addSlide_onClick_def setPresentation_def)
  have fresh: "\<forall>now'. now' \<noteq> now \<longrightarrow> id_slide (newSlide now') \<noteq> id_slide (newSlide now)"
    using decimal_inj by (auto simp add: newSlide_def)
  have fields: "id_slide (newSlide now) = Some (''slide-'' @ decimal now)"
    "title (newSlide now) = Some ''New Slide''"
    "content (newSlide now) = Some [''Click to edit content'']"
    "backgroundImage (newSlide now) = Some ''#FFFFFF''"
    "backgroundImageSearchQuery (newSlide now) = Some ''abstract''"
    "animation (newSlide now) = Some anim_none"
    "titleStyle (newSlide now) = None"
    "contentStyle (newSlide now) = None"
    by (simp_all add: newSlide_def)
  from sl len old dense sel fresh fields show ?thesis
    by blast
qed

theorem add_slide_witness:
  "slides (presentation (addSlide_onClick 1700000000000 (sample_editor [sample_slide ''s1'' []] 0 [])))
     = [Val (sample_slide ''s1'' []), Val (newSlide 1700000000000)]
   \<and> selectedSlideIndex (addSlide_onClick 1700000000000 (sample_editor [sample_slide ''s1'' []] 0 [])) = 1
   \<and> id_slide (newSlide 1700000000001) \<noteq> id_slide (newSlide 1700000000000)"
proof -
  let ?e = "sample_editor [sample_slide ''s1'' []] 0 []"
  have xs: "slides (presentation ?e) = [Val (sample_slide ''s1'' [])]"
    by (simp add: sample_editor_def)
  have sp: "spread_array [Val (sample_slide ''s1'' [])] = [Val (sample_slide ''s1'' [])]"
    by (simp add: spread_array_def read_cell_def)
  have ne: "(1700000000001::nat) \<noteq> 1700000000000"
    by simp
  from add_slide [of 1700000000000 ?e]
  have a: "slides (presentation (addSlide_onClick 1700000000000 ?e))
             = spread_array (slides (presentation ?e)) @ [Val (newSlide 1700000000000)]"
    and b: "selectedSlideIndex (addSlide_onClick 1700000000000 ?e) = length (slides (presentation ?e))"
    and c: "\<forall>now'. now' \<noteq> 1700000000000
              \<longrightarrow> id_slide (newSlide now') \<noteq> id_slide (newSlide 1700000000000)"
    by blast+
  from c ne have "id_slide (newSlide 1700000000001) \<noteq> id_slide (newSlide 1700000000000)"
    by blast
  with a b show ?thesis
    unfolding xs sp by simp
qed

section \<open>Properties of the content refinement\<close>

lemma trim_blank: "length (trim l) > 0 \<longleftrightarrow> \<not> (\<forall>c\<in>set l. isWhiteSpace c)"
proof -
  have "trim l = [] \<longleftrightarrow> (\<forall>c\<in>set l. isWhiteSpace c)"
  proof
    assume "trim l = []"
    then have "dropWhile isWhiteSpace (rev (dropWhile isWhiteSpace l)) = []"
      by (simp add: trim_def)
    then have "\<forall>c\<in>set (rev (dropWhile isWhiteSpace l)). isWhiteSpace c"
      by (simp add: dropWhile_eq_Nil_conv)
    then have "dropWhile isWhiteSpace l = []"
      by (metis hd_dropWhile list.set_sel(1) set_rev)
    then show "\<forall>c\<in>set l. isWhiteSpace c"
      by (simp add: dropWhile_eq_Nil_conv)
  next
    assume "\<forall>c\<in>set l. isWhiteSpace c"
    then have d: "dropWhile isWhiteSpace l = []"
      by (simp add: dropWhile_eq_Nil_conv)
    show "trim l = []" unfolding trim_def d by simp
  qed
  then show ?thesis by auto
qed

lemma replace_marker_eq: "replace_marker l = (if take 2 l = ''- '' then drop 2 l else l)"
  by (simp add: replace_marker_def startsWith_def numeral_2_eq_2)

lemma parse_bullets_eq:
  "parse_bullets r =
     map (\<lambda>l. if take 2 l = ''- '' then drop 2 l else l)
       (filter (\<lambda>l. \<not> (\<forall>c\<in>set l. isWhiteSpace c)) (split_newline r))"
proof -
  have "(\<lambda>l. length (trim l) > 0) = (\<lambda>l. \<not> (\<forall>c\<in>set l. isWhiteSpace c))"
    by (rule ext) (rule trim_blank)
  moreover have "replace_marker = (\<lambda>l. if take 2 l = ''- '' then drop 2 l else l)"
    by (rule ext) (rule replace_marker_eq)
  ultimately show ?thesis by (simp add: parse_bullets_def)
qed

lemma split_newline_nonempty: "split_newline r \<noteq> []"
  by (induction r) (simp_all split: list.splits)

lemma join_newline_Cons: "ls \<noteq> [] \<Longrightarrow> join_newline (l # ls) = l @ CHR 0x0A # join_newline ls"
  by (cases ls) simp_all

lemma join_split_newline: "join_newline (split_newline r) = r"
proof (induction r)
  case Nil
  then show ?case by simp
next
  case (Cons c cs)
  obtain l ls where sp: "split_newline cs = l # ls"
    using split_newline_nonempty [of cs] by (cases "split_newline cs") auto
  show ?case
  proof (cases "c = CHR 0x0A")
    case True
    then show ?thesis using Cons.IH split_newline_nonempty [of cs]
      by (simp add: join_newline_Cons)
  next
    case False
    then show ?thesis using Cons.IH sp
      by (cases ls) simp_all
  qed
qed

lemma split_newline_lines: "\<forall>l\<in>set (split_newline r). CHR 0x0A \<notin> set l"
proof (induction r)
  case Nil
  then show ?case by simp
next
  case (Cons c cs)
  obtain l ls where sp: "split_newline cs = l # ls"
    using split_newline_nonempty [of cs] by (cases "split_newline cs") auto
  with Cons.IH show ?case by auto
qed

lemma array_get_Val_length: "array_get xs i = Val s \<Longrightarrow> i < length xs"
  by (simp add: array_get_def split: if_splits)

lemma array_get_set_same: "i < length xs \<Longrightarrow> array_get (array_set xs i (Val v)) i = Val v"
  by (simp add: array_get_def array_set_def read_cell_def)

lemma array_get_set_other:
  "i < length xs \<Longrightarrow> j \<noteq> i \<Longrightarrow> array_get (array_set xs i v) j = array_get xs j"
  by (simp add: array_get_def array_set_def)

lemma spread_merge_content:
  "spread_merge s (empty_object\<lparr>content := Some b\<rparr>) = s\<lparr>content := Some b\<rparr>"
  by (simp add: spread_merge_def empty_object_def or_else_def)

lemma updateSlide_content:
  assumes "array_get (slides (presentation e)) (selectedSlideIndex e) = Val s"
  shows "array_get (slides (presentation (updateSlide (empty_object\<lparr>content := Some b\<rparr>) e)))
           (selectedSlideIndex e) = Val (s\<lparr>content := Some b\<rparr>)"
    and "j \<noteq> selectedSlideIndex e \<Longrightarrow>
         array_get (slides (presentation (updateSlide (empty_object\<lparr>content := Some b\<rparr>) e))) j
           = array_get (slides (presentation e)) j"
    and "selectedSlideIndex (updateSlide u e) = selectedSlideIndex e"
proof -
  let ?xs = "slides (presentation e)"
  let ?i = "selectedSlideIndex e"
  from array_get_Val_length [OF assms] have i: "?i < length (spread_array ?xs)"
    by (simp add: length_spread_array)
  have g: "array_get (spread_array ?xs) ?i = Val s"
    using assms by (simp add: array_get_spread)
  show "array_get (slides (presentation (updateSlide (empty_object\<lparr>content := Some b\<rparr>) e))) ?i
          = Val (s\<lparr>content := Some b\<rparr>)"
    using i g
    by (simp add: updateSlide_def setPresentation_def Let_def array_get_set_same
        spread_object_def spread_merge_content)
  show "array_get (slides (presentation (updateSlide (empty_object\<lparr>content := Some b\<rparr>) e))) j
           = array_get ?xs j" if "j \<noteq> ?i"
    using i that
    by (simp add: updateSlide_def setPresentation_def Let_def array_get_set_other array_get_spread)
  show "selectedSlideIndex (updateSlide u e) = selectedSlideIndex e"
    by (simp add: updateSlide_def setPresentation_def Let_def)
qed

lemma refine_attempt_Val:
  assumes sel: "array_get (slides (presentation e)) (selectedSlideIndex e) = Val s"
    and lines: "content s = Some lines"
  shows "refine_attempt backend e =
     Inr ((updateSlide (empty_object\<lparr>content := Some (parse_bullets
              (generateSlideContentImprovement backend (join_newline lines) (aiContentPrompt e)))\<rparr>) e)
                          \<lparr>aiContentPrompt := [], toastMessage := Some ''Content refined!''\<rparr>)"
  using sel lines by (simp add: refine_attempt_def)

text \<open>
  C8. When the backend answers with the text \<open>r\<close>, the content of the selected slide
  becomes: \<open>r\<close> split at the newline characters (the pieces contain no newline and, joined
  with newlines, give \<open>r\<close> back), without the pieces that consist of white space only,
  and with a hyphen and space removed from the start of a piece that begins with them.
  The response \<^verbatim>\<open>"- Point one\n\nPoint two\n- Point three"\<close> gives the three lines
  "Point one", "Point two", "Point three".
\<close>

theorem refine_success:
  assumes prompt: "aiContentPrompt e \<noteq> []"
    and sel: "array_get (slides (presentation e)) (selectedSlideIndex e) = Val s"
    and lines: "content s = Some lines"
    and resp: "backend (join_newline lines) (aiContentPrompt e) = Ok (Some r)"
  shows "array_get (slides (presentation (handleAiContentRefine backend e))) (selectedSlideIndex e)
           = Val (s\<lparr>content := Some
                (map (\<lambda>l. if take 2 l = ''- '' then drop 2 l else l)
                   (filter (\<lambda>l. \<not> (\<forall>c\<in>set l. isWhiteSpace c)) (split_newline r)))\<rparr>)
       \<and> split_newline r \<noteq> []
       \<and> join_newline (split_newline r) = r
       \<and> (\<forall>l\<in>set (split_newline r). CHR 0x0A \<notin> set l)
       \<and> toastMessage (handleAiContentRefine backend e) = Some ''Content refined!''"
proof -
  let ?e = "e\<lparr>isAiLoading := True\<rparr>"
  let ?u = "empty_object\<lparr>content := Some (parse_bullets r)\<rparr>"
  have new: "generateSlideContentImprovement backend (join_newline lines) (aiContentPrompt ?e) = r"
    using resp by (simp add: generateSlideContentImprovement_def handleResponse_def)
  have sel': "array_get (slides (presentation ?e)) (selectedSlideIndex ?e) = Val s"
    using sel by simp
  have tr: "refine_attempt backend ?e =
               Inr ((updateSlide ?u ?e)
                      \<lparr>aiContentPrompt := [], toastMessage := Some ''Content refined!''\<rparr>)"
    unfolding refine_attempt_Val [OF sel' lines] new ..
  have h: "handleAiContentRefine backend e =
             (updateSlide ?u ?e)
               \<lparr>aiContentPrompt := [], toastMessage := Some ''Content refined!'',
                isAiLoading := False\<rparr>"
    unfolding handleAiContentRefine_def tr using prompt by simp
  have a: "array_get (slides (presentation (handleAiContentRefine backend e))) (selectedSlideIndex e)
          = Val (s\<lparr>content := Some (parse_bullets r)\<rparr>)"
    unfolding h using updateSlide_content(1) [OF sel', of "parse_bullets r"] by simp
  have b: "toastMessage (handleAiContentRefine backend e) = Some ''Content refined!''"
    unfolding h by simp
  from a have a': "array_get (slides (presentation (handleAiContentRefine backend e))) (selectedSlideIndex e)
           = Val (s\<lparr>content := Some
                (map (\<lambda>l. if take 2 l = ''- '' then drop 2 l else l)
                   (filter (\<lambda>l. \<not> (\<forall>c\<in>set l. isWhiteSpace c)) (split_newline r)))\<rparr>)"
    by (simp only: parse_bullets_eq)
  from a' b split_newline_nonempty [of r] join_split_newline [of r] split_newline_lines [of r]
  show ?thesis by blast
qed

theorem refine_success_witness:
  "array_get (slides (presentation (handleAiContentRefine
       (\<lambda>currentContent instruction. Ok (Some ''- Point one\<newline>\<newline>Point two\<newline>- Point three''))
       (sample_editor [sample_slide ''s1'' [''old'']] 0 ''shorter'')))) 0
     = Val (sample_slide ''s1'' [''Point one'', ''Point two'', ''Point three''])"
proof -
  let ?r = "''- Point one\<newline>\<newline>Point two\<newline>- Point three''"
  let ?b = "\<lambda>currentContent instruction. Ok (Some ?r) :: response"
  let ?e = "sample_editor [sample_slide ''s1'' [''old'']] 0 ''shorter''"
  have prompt: "aiContentPrompt ?e \<noteq> []"
    by (simp add: sample_editor_def)
  have sel: "array_get (slides (presentation ?e)) (selectedSlideIndex ?e) = Val (sample_slide ''s1'' [''old''])"
    by (simp add: sample_editor_def array_get_def read_cell_def)
  have lines: "content (sample_slide ''s1'' [''old'']) = Some [''old'']"
    by (simp add: sample_slide_def)
  have resp: "?b (join_newline [''old'']) (aiContentPrompt ?e) = Ok (Some ?r)"
    by simp
  have p: "parse_bullets ?r = [''Point one'', ''Point two'', ''Point three'']"
    by code_simp
  have ev: "map (\<lambda>l. if take 2 l = ''- '' then drop 2 l else l)
              (filter (\<lambda>l. \<not> (\<forall>c\<in>set l. isWhiteSpace c)) (split_newline ?r))
            = [''Point one'', ''Point two'', ''Point three'']"
    by (rule trans [OF parse_bullets_eq [symmetric] p])
  have i: "selectedSlideIndex ?e = 0"
    by (simp add: sample_editor_def)
  from refine_success [of ?e "sample_slide ''s1'' [''old'']" "[''old'']" ?b ?r, OF prompt sel lines resp]
  show ?thesis
    unfolding ev i by (simp add: sample_slide_def)
qed

text \<open>
  C9. The claim is that a failed call to the backend leaves the content of the slide as it
  was and raises a failure notice. The service catches the failure and returns the content
  it was given, so the handler takes its success path: it parses that text again, which
  drops a blank line and strips the marker of \<^verbatim>\<open>"- a"\<close>, stores the result, clears the
  prompt and announces "Content refined!". The notice "Failed to refine content." of the
  handler is not reached by a failure of the backend. The evaluation below is for a
  rejected request and for an answer with an error status.
\<close>

theorem refine_failure_evaluation:
  "handleAiContentRefine (\<lambda>currentContent instruction. Rejected)
       (sample_editor [sample_slide ''s1'' [''- a'', '''']] 0 ''shorter'')
     = (sample_editor [sample_slide ''s1'' [''a'']] 0 [])\<lparr>toastMessage := Some ''Content refined!''\<rparr>
   \<and> handleAiContentRefine (\<lambda>currentContent instruction. NotOk ''Internal Server Error'')
       (sample_editor [sample_slide ''s1'' [''Point'']] 0 ''shorter'')
     = (sample_editor [sample_slide ''s1'' [''Point'']] 0 [])\<lparr>toastMessage := Some ''Content refined!''\<rparr>"
  by code_simp

end
